theory Spec2Isabelle
  imports Complex_Main
begin

section \<open>The shared video state (video-state.service.ts)\<close>

text \<open>
  The TypeScript interface \<open>VideoState\<close>. A JavaScript number holding seconds is a
  \<open>real\<close>, a YouTube state code (-1, 0, 1, 2, 3, 5) an \<open>int\<close>, and a reading of
  \<open>Date.now()\<close> (whole milliseconds) an \<open>int\<close>.
\<close>

record VideoState =
  currentTime :: real
  playerState :: int
  isPlaying :: bool
  lastUpdate :: int

text \<open>
  \<open>Partial<VideoState>\<close>: every key may be absent. A key that is present carries its
  value; \<open>None\<close> is the absent key.
\<close>

record VideoStatePartial =
  p_currentTime :: "real option"
  p_playerState :: "int option"
  p_isPlaying :: "bool option"
  p_lastUpdate :: "int option"

record VideoConfig =
  videoId :: "string option"
  playlistId :: "string option"
  videoIds :: "string list option"

text \<open>
  The service object. \<open>videoStateSubject\<close> is the current value of the
  \<open>BehaviorSubject\<close>; \<open>published\<close> lists, oldest first, the values handed to its
  \<open>next()\<close>, which is what every subscriber is sent. \<open>activePlayerId\<close> is
  \<open>string | null\<close>.
\<close>

record VideoStateService =
  videoConfig :: VideoConfig
  videoStateSubject :: VideoState
  published :: "VideoState list"
  activePlayerId :: "string option"

text \<open>
  JavaScript truthiness of a \<open>string | null | undefined\<close>: \<open>null\<close>, \<open>undefined\<close>
  and the empty string are falsy.
\<close>

definition truthy :: "string option \<Rightarrow> bool" where
  "truthy x = (case x of None \<Rightarrow> False | Some s \<Rightarrow> s \<noteq> [])"

definition emptyPartial :: VideoStatePartial where
  "emptyPartial =
     \<lparr>p_currentTime = None, p_playerState = None, p_isPlaying = None, p_lastUpdate = None\<rparr>"

definition initialState :: "int \<Rightarrow> VideoState" where
  "initialState now =
     \<lparr>currentTime = 0, playerState = -1, isPlaying = False, lastUpdate = now\<rparr>"

definition defaultVideoConfig :: VideoConfig where
  "defaultVideoConfig = \<lparr>videoId = Some ''WdxYgjjPSjg'', playlistId = None, videoIds = None\<rparr>"

text \<open>The service as its field initialisers build it, \<open>now\<close> being \<open>Date.now()\<close> then.\<close>

definition newVideoStateService :: "VideoConfig \<Rightarrow> int \<Rightarrow> VideoStateService" where
  "newVideoStateService cfg now =
     \<lparr>videoConfig = cfg, videoStateSubject = initialState now, published = [],
      activePlayerId = None\<rparr>"

definition getVideoConfig :: "VideoStateService \<Rightarrow> VideoConfig" where
  "getVideoConfig svc = videoConfig svc"

definition getCurrentState :: "VideoStateService \<Rightarrow> VideoState" where
  "getCurrentState svc = videoStateSubject svc"

text \<open>
  The object literal \<open>{ ...currentState, ...state, lastUpdate: Date.now() }\<close>: the keys
  of \<open>state\<close> win over those of \<open>currentState\<close>, and the \<open>lastUpdate\<close> written last
  wins over both.
\<close>

definition spread :: "VideoState \<Rightarrow> VideoStatePartial \<Rightarrow> int \<Rightarrow> VideoState" where
  "spread currentState state now =
     \<lparr>currentTime = (case p_currentTime state of None \<Rightarrow> currentTime currentState | Some v \<Rightarrow> v),
      playerState = (case p_playerState state of None \<Rightarrow> playerState currentState | Some v \<Rightarrow> v),
      isPlaying = (case p_isPlaying state of None \<Rightarrow> isPlaying currentState | Some v \<Rightarrow> v),
      lastUpdate = now\<rparr>"

text \<open>\<open>BehaviorSubject.next\<close>: the value is stored and sent to the subscribers.\<close>

definition subject_next :: "VideoState \<Rightarrow> VideoStateService \<Rightarrow> VideoStateService" where
  "subject_next v svc = svc\<lparr>videoStateSubject := v, published := published svc @ [v]\<rparr>"

text \<open>
  The methods of the service. Each takes the reading \<open>now\<close> that \<open>Date.now()\<close> gives
  during the call. None of them has a \<open>throw\<close>, so each is a total function to the
  service after the call.
\<close>

definition updateState ::
  "VideoStatePartial \<Rightarrow> string \<Rightarrow> int \<Rightarrow> VideoStateService \<Rightarrow> VideoStateService" where
  "updateState state playerId now svc =
     (if truthy (activePlayerId svc) \<and> activePlayerId svc \<noteq> Some playerId then svc
      else subject_next (spread (videoStateSubject svc) state now) svc)"

definition setActivePlayer :: "string \<Rightarrow> VideoStateService \<Rightarrow> VideoStateService" where
  "setActivePlayer playerId svc = svc\<lparr>activePlayerId := Some playerId\<rparr>"

definition saveCurrentTime :: "real \<Rightarrow> string \<Rightarrow> int \<Rightarrow> VideoStateService \<Rightarrow> VideoStateService" where
  "saveCurrentTime time playerId now svc =
     updateState (emptyPartial\<lparr>p_currentTime := Some time\<rparr>) playerId now svc"

definition savePlayerState ::
  "int \<Rightarrow> bool \<Rightarrow> string \<Rightarrow> int \<Rightarrow> VideoStateService \<Rightarrow> VideoStateService" where
  "savePlayerState ps playing playerId now svc =
     updateState (emptyPartial\<lparr>p_playerState := Some ps, p_isPlaying := Some playing\<rparr>)
       playerId now svc"

definition forceUpdateState :: "VideoStatePartial \<Rightarrow> int \<Rightarrow> VideoStateService \<Rightarrow> VideoStateService" where
  "forceUpdateState state now svc = subject_next (spread (videoStateSubject svc) state now) svc"

text \<open>A write to the store as a value: gated (with the requester's id) or forced.\<close>

datatype store_write =
    Gated VideoStatePartial string int
  | Forced VideoStatePartial int

fun apply_write :: "store_write \<Rightarrow> VideoStateService \<Rightarrow> VideoStateService" where
  "apply_write (Gated state playerId now) svc = updateState state playerId now svc"
| "apply_write (Forced state now) svc = forceUpdateState state now svc"

fun apply_writes :: "store_write list \<Rightarrow> VideoStateService \<Rightarrow> VideoStateService" where
  "apply_writes [] svc = svc"
| "apply_writes (w # ws) svc = apply_writes ws (apply_write w svc)"

section \<open>The player component (video-player.ts)\<close>

text \<open>
  The external YouTube player is known to the component through its two getters and
  through the commands sent to it. \<open>engine\<close> holds what the getters return at the
  moment of an operation (the same value for every call within one operation; the
  environment changes them between operations); the commands are logged in the world
  below.
\<close>

record engine =
  getCurrentTime :: real
  getPlayerState :: int

datatype engine_call = SeekTo real bool | PlayVideo | PauseVideo | Mute

text \<open>
  The five closures the component hands to \<open>setInterval\<close> and \<open>setTimeout\<close>:
  the periodic save of \<open>onPlayerReady\<close>, its 500 ms callback (which closes over the
  \<open>currentTime\<close> read when the player became ready), the 200 ms callback nested in
  that one, its 1000 ms callback, and the 100 ms callback of \<open>onStateChange\<close>.
\<close>

datatype callback = SaveStateTick | RestoreSeek real | RestorePlay | StartPlay | LoopRestart

record timer =
  handle :: nat
  owner :: string
  delay :: nat
  repeating :: bool
  callback :: callback

text \<open>What the two \<open>EventEmitter\<close>s of the component send to its parent.\<close>

datatype emitted = PlayerReady | StateChange int

text \<open>
  The \<open>playerConfig\<close> object. \<open>None\<close> is a key that is \<open>undefined\<close> or deleted.
\<close>

record PlayerConfig =
  autoplay :: nat
  mute :: nat
  loop :: nat
  listType :: "string option"
  list :: "string option"
  playlist :: "string list option"
  index :: nat

text \<open>
  The fields of the component. Those whose names the service's records already use carry
  the prefix \<open>vp_\<close>. \<open>videoStateSubscription\<close> is \<open>readonly\<close> and \<open>null\<close>, so the
  branch of \<open>ngOnDestroy\<close> that tests it never runs and the field is left out.
  \<open>saveStateInterval\<close> is the handle \<open>window.setInterval\<close> returned, or \<open>null\<close>.
\<close>

record VideoPlayer =
  isMainPlayer :: bool
  vp_videoConfig :: "VideoConfig option"
  vp_videoId :: string
  vp_playlistId :: "string option"
  vp_videoIds :: "string list option"
  player :: "engine option"
  vp_currentTime :: real
  isPlayerReady :: bool
  vp_playerState :: int
  saveStateInterval :: "nat option"
  playerId :: string
  playerConfig :: PlayerConfig

text \<open>
  Everything outside the component that its methods read or change: the injected
  service, the clock behind \<open>Date.now()\<close>, the timers of \<open>window\<close> (with the next
  handle it will give out), and two logs, oldest first: the commands sent to the players,
  each with the id of the component that sent it, and the events emitted to the parents.
\<close>

record world =
  service :: VideoStateService
  clock :: int
  nextHandle :: nat
  timers :: "timer list"
  engineCalls :: "(string \<times> engine_call) list"
  outputs :: "(string \<times> emitted) list"

datatype error = TypeError

definition newWorld :: "VideoConfig \<Rightarrow> int \<Rightarrow> world" where
  "newWorld cfg now =
     \<lparr>service = newVideoStateService cfg now, clock = now, nextHandle = 1, timers = [],
      engineCalls = [], outputs = []\<rparr>"

definition setTimer :: "string \<Rightarrow> callback \<Rightarrow> nat \<Rightarrow> bool \<Rightarrow> world \<Rightarrow> nat \<times> world" where
  "setTimer who cb ms rep w =
     (nextHandle w,
      w\<lparr>nextHandle := Suc (nextHandle w),
        timers := timers w @
          [\<lparr>handle = nextHandle w, owner = who, delay = ms, repeating = rep, callback = cb\<rparr>]\<rparr>)"

definition setTimeout :: "string \<Rightarrow> callback \<Rightarrow> nat \<Rightarrow> world \<Rightarrow> world" where
  "setTimeout who cb ms w = snd (setTimer who cb ms False w)"

definition setInterval :: "string \<Rightarrow> callback \<Rightarrow> nat \<Rightarrow> world \<Rightarrow> nat \<times> world" where
  "setInterval who cb ms w = setTimer who cb ms True w"

definition clearInterval :: "nat \<Rightarrow> world \<Rightarrow> world" where
  "clearInterval h w = w\<lparr>timers := filter (\<lambda>t. handle t \<noteq> h) (timers w)\<rparr>"

text \<open>\<open>if (this.saveStateInterval) clearInterval(this.saveStateInterval)\<close>\<close>

definition clearSaveStateInterval :: "VideoPlayer \<Rightarrow> world \<Rightarrow> world" where
  "clearSaveStateInterval vp w =
     (case saveStateInterval vp of
        None \<Rightarrow> w
      | Some h \<Rightarrow> if h \<noteq> 0 then clearInterval h w else w)"

definition engineCall :: "VideoPlayer \<Rightarrow> engine_call \<Rightarrow> world \<Rightarrow> world" where
  "engineCall vp c w = w\<lparr>engineCalls := engineCalls w @ [(playerId vp, c)]\<rparr>"

definition emit :: "VideoPlayer \<Rightarrow> emitted \<Rightarrow> world \<Rightarrow> world" where
  "emit vp out w = w\<lparr>outputs := outputs w @ [(playerId vp, out)]\<rparr>"

text \<open>\<open>this.videoStateService.updateState(state, this.playerId)\<close>\<close>

definition pushState :: "VideoPlayer \<Rightarrow> VideoStatePartial \<Rightarrow> world \<Rightarrow> world" where
  "pushState vp state w = w\<lparr>service := updateState state (playerId vp) (clock w) (service w)\<rparr>"

definition initialPlayerConfig :: PlayerConfig where
  "initialPlayerConfig =
     \<lparr>autoplay = 1, mute = 1, loop = 1, listType = None, list = None, playlist = None,
      index = 0\<rparr>"

text \<open>
  The constructor. The id is the template string
  \<open>player_${Math.random().toString(36).substring(2, 9)}_${Date.now()}\<close>; \<open>rnd\<close> and
  \<open>stamp\<close> are the two interpolated strings. \<open>isMain\<close> is the \<open>@Input\<close> the parent
  sets before \<open>ngOnInit\<close>.
\<close>

definition newVideoPlayer :: "bool \<Rightarrow> string \<Rightarrow> string \<Rightarrow> VideoPlayer" where
  "newVideoPlayer isMain rnd stamp =
     \<lparr>isMainPlayer = isMain, vp_videoConfig = None, vp_videoId = [], vp_playlistId = None,
      vp_videoIds = None, player = None, vp_currentTime = 0, isPlayerReady = False,
      vp_playerState = -1, saveStateInterval = None,
      playerId = ''player_'' @ rnd @ ''_'' @ stamp, playerConfig = initialPlayerConfig\<rparr>"

definition singleVideoConfig :: "PlayerConfig \<Rightarrow> PlayerConfig" where
  "singleVideoConfig c = c\<lparr>listType := None, list := None, playlist := None\<rparr>"

definition setupPlayerConfig :: "VideoPlayer \<Rightarrow> VideoPlayer" where
  "setupPlayerConfig vp =
     (if truthy (vp_playlistId vp)
      then vp\<lparr>playerConfig :=
             (playerConfig vp)\<lparr>listType := Some ''playlist'', list := vp_playlistId vp,
                               playlist := None\<rparr>\<rparr>
      else (case vp_videoIds vp of
              None \<Rightarrow> vp\<lparr>playerConfig := singleVideoConfig (playerConfig vp)\<rparr>
            | Some ids \<Rightarrow>
                if length ids > 1
                then vp\<lparr>playerConfig :=
                       (playerConfig vp)\<lparr>playlist := Some (drop 1 ids), listType := None,
                                         list := None\<rparr>\<rparr>
                else vp\<lparr>playerConfig := singleVideoConfig (playerConfig vp)\<rparr>))"

definition getVideoId :: "VideoPlayer \<Rightarrow> string" where
  "getVideoId vp =
     (case vp_videoIds vp of
        Some (x # xs) \<Rightarrow> x
      | _ \<Rightarrow> if truthy (vp_playlistId vp) then [] else vp_videoId vp)"

text \<open>\<open>this.videoConfig.videoId || 'dQw4w9WgXcQ'\<close>\<close>

definition videoIdOrDefault :: "string option \<Rightarrow> string" where
  "videoIdOrDefault v = (case v of None \<Rightarrow> ''dQw4w9WgXcQ'' | Some s \<Rightarrow> if s = [] then ''dQw4w9WgXcQ'' else s)"

definition ngOnInit :: "VideoPlayer \<Rightarrow> world \<Rightarrow> VideoPlayer \<times> world" where
  "ngOnInit vp w =
     (let cfg = getVideoConfig (service w);
          vp1 = setupPlayerConfig
                  (vp\<lparr>vp_videoConfig := Some cfg, vp_videoId := videoIdOrDefault (videoId cfg),
                      vp_playlistId := playlistId cfg, vp_videoIds := videoIds cfg\<rparr>);
          currentState = getCurrentState (service w);
          vp2 = vp1\<lparr>vp_currentTime := currentTime currentState,
                    vp_playerState := playerState currentState\<rparr>
      in (vp2, if isMainPlayer vp2
               then w\<lparr>service := setActivePlayer (playerId vp2) (service w)\<rparr>
               else w))"

text \<open>
  The partial that \<open>ngOnDestroy\<close> builds from the player's getters; its \<open>lastUpdate\<close>
  is a \<open>Date.now()\<close> of its own, which \<open>spread\<close> discards.
\<close>

definition telemetry :: "engine \<Rightarrow> int \<Rightarrow> VideoStatePartial" where
  "telemetry e now =
     \<lparr>p_currentTime = Some (getCurrentTime e), p_playerState = Some (getPlayerState e),
      p_isPlaying = Some (getPlayerState e = 1), p_lastUpdate = Some now\<rparr>"

definition ngOnDestroy :: "VideoPlayer \<Rightarrow> world \<Rightarrow> VideoPlayer \<times> world" where
  "ngOnDestroy vp w =
     (let w1 = clearSaveStateInterval vp w
      in (vp,
          case player vp of
            None \<Rightarrow> w1
          | Some e \<Rightarrow>
              if isPlayerReady vp
              then w1\<lparr>service := forceUpdateState (telemetry e (clock w1)) (clock w1) (service w1)\<rparr>
              else w1))"

definition onPlayerReady :: "engine \<Rightarrow> VideoPlayer \<Rightarrow> world \<Rightarrow> VideoPlayer \<times> world" where
  "onPlayerReady target vp w =
     (let vp1 = vp\<lparr>player := Some target, isPlayerReady := True\<rparr>;
          currentState = getCurrentState (service w);
          (vp2, w2) =
             (if isMainPlayer vp1
              then (let w1 = clearSaveStateInterval vp1
                               (w\<lparr>service := setActivePlayer (playerId vp1) (service w)\<rparr>);
                        (h, w1') = setInterval (playerId vp1) SaveStateTick 250 w1
                    in (vp1\<lparr>saveStateInterval := Some h\<rparr>, w1'))
              else (vp1, w));
          w3 = (if currentTime currentState > 0
                then setTimeout (playerId vp2) (RestoreSeek (currentTime currentState)) 500 w2
                else setTimeout (playerId vp2) StartPlay 1000 w2)
      in (vp2, emit vp2 PlayerReady w3))"

text \<open>
  Running one of the closures, with \<open>this\<close> the component as it is when the timer
  fires. The periodic save tests \<open>this.player && this.isPlayerReady\<close> (its last
  statement, \<open>syncMiniPlayers()\<close>, has an empty body); the other four call a method of
  \<open>this.player\<close> first thing, which throws a \<open>TypeError\<close> when it is \<open>null\<close>.
\<close>

fun run_callback :: "callback \<Rightarrow> VideoPlayer \<Rightarrow> world \<Rightarrow> error + VideoPlayer \<times> world" where
  "run_callback SaveStateTick vp w =
     (case player vp of
        None \<Rightarrow> Inr (vp, w)
      | Some e \<Rightarrow>
          if isPlayerReady vp
          then (let newTime = getCurrentTime e;
                    newState = getPlayerState e;
                    w1 = (if newState \<noteq> 1 \<and> newState \<noteq> 0 then engineCall vp PlayVideo w else w)
                in Inr (vp, pushState vp
                          (emptyPartial\<lparr>p_currentTime := Some newTime,
                                        p_playerState := Some newState,
                                        p_isPlaying := Some (newState = 1)\<rparr>) w1))
          else Inr (vp, w))"
| "run_callback (RestoreSeek t) vp w =
     (case player vp of
        None \<Rightarrow> Inl TypeError
      | Some e \<Rightarrow>
          (let w1 = engineCall vp (SeekTo t True) w;
               w2 = setTimeout (playerId vp) RestorePlay 200 w1
           in Inr (vp, if \<not> isMainPlayer vp then engineCall vp Mute w2 else w2)))"
| "run_callback RestorePlay vp w =
     (case player vp of
        None \<Rightarrow> Inl TypeError
      | Some e \<Rightarrow>
          Inr (vp, pushState vp (emptyPartial\<lparr>p_isPlaying := Some True\<rparr>)
                     (engineCall vp PlayVideo w)))"
| "run_callback StartPlay vp w =
     (case player vp of
        None \<Rightarrow> Inl TypeError
      | Some e \<Rightarrow>
          Inr (vp, pushState vp
                     (emptyPartial\<lparr>p_isPlaying := Some True, p_playerState := Some 1,
                                   p_currentTime := Some 0\<rparr>)
                     (engineCall vp PlayVideo w)))"
| "run_callback LoopRestart vp w =
     (case player vp of
        None \<Rightarrow> Inl TypeError
      | Some e \<Rightarrow>
          Inr (vp, pushState vp
                     (emptyPartial\<lparr>p_currentTime := Some 0, p_isPlaying := Some True,
                                   p_playerState := Some 1\<rparr>)
                     (engineCall vp PlayVideo (engineCall vp (SeekTo 0 True) w))))"

text \<open>
  \<open>onStateChange(event)\<close>, \<open>dat\<close> being \<open>event.data\<close>. On code 0 the main player
  returns right after \<open>setTimeout\<close>, before \<open>stateChange.emit\<close>.
\<close>

definition onStateChange :: "int \<Rightarrow> VideoPlayer \<Rightarrow> world \<Rightarrow> VideoPlayer \<times> world" where
  "onStateChange dat vp w =
     (case player vp of
        None \<Rightarrow> (vp, emit vp (StateChange dat) w)
      | Some e \<Rightarrow>
          if isMainPlayer vp \<and> isPlayerReady vp
          then (let newTime = getCurrentTime e
                in if dat = 0
                   then (vp, setTimeout (playerId vp) LoopRestart 100 w)
                   else (vp, emit vp (StateChange dat)
                               (pushState vp
                                  (emptyPartial\<lparr>p_currentTime := Some newTime,
                                                p_playerState := Some dat,
                                                p_isPlaying := Some (dat = 1)\<rparr>) w)))
          else (vp, emit vp (StateChange dat) w))"

definition syncWith :: "real \<Rightarrow> int \<Rightarrow> VideoPlayer \<Rightarrow> world \<Rightarrow> VideoPlayer \<times> world" where
  "syncWith time state vp w =
     (case player vp of
        None \<Rightarrow> (vp, w)
      | Some e \<Rightarrow>
          if isPlayerReady vp
          then (let w1 = engineCall vp (SeekTo time True) w
                in (vp, if state = 1 \<and> isMainPlayer vp then engineCall vp PlayVideo w1
                        else if state = 2 then engineCall vp PauseVideo w1
                        else w1))
          else (vp, w))"

section \<open>Histories of the whole system\<close>

text \<open>
  Everything that can happen to the store: a call of one of its own methods, a lifecycle
  method or callback of some component (given with the component's state at that moment),
  or the clock moving. An uncaught \<open>TypeError\<close> of a timer closure is thrown before the
  closure has changed anything, so it leaves the world as it was.
\<close>

datatype event =
    EvUpdateState VideoStatePartial string
  | EvSetActivePlayer string
  | EvSaveCurrentTime real string
  | EvSavePlayerState int bool string
  | EvForceUpdateState VideoStatePartial
  | EvNgOnInit VideoPlayer
  | EvNgOnDestroy VideoPlayer
  | EvOnPlayerReady engine VideoPlayer
  | EvOnStateChange int VideoPlayer
  | EvSyncWith real int VideoPlayer
  | EvCallback callback VideoPlayer
  | EvClock int

fun step :: "event \<Rightarrow> world \<Rightarrow> world" where
  "step (EvUpdateState state pid) w = w\<lparr>service := updateState state pid (clock w) (service w)\<rparr>"
| "step (EvSetActivePlayer pid) w = w\<lparr>service := setActivePlayer pid (service w)\<rparr>"
| "step (EvSaveCurrentTime t pid) w = w\<lparr>service := saveCurrentTime t pid (clock w) (service w)\<rparr>"
| "step (EvSavePlayerState ps playing pid) w =
     w\<lparr>service := savePlayerState ps playing pid (clock w) (service w)\<rparr>"
| "step (EvForceUpdateState state) w = w\<lparr>service := forceUpdateState state (clock w) (service w)\<rparr>"
| "step (EvNgOnInit vp) w = snd (ngOnInit vp w)"
| "step (EvNgOnDestroy vp) w = snd (ngOnDestroy vp w)"
| "step (EvOnPlayerReady target vp) w = snd (onPlayerReady target vp w)"
| "step (EvOnStateChange dat vp) w = snd (onStateChange dat vp w)"
| "step (EvSyncWith time state vp) w = snd (syncWith time state vp w)"
| "step (EvCallback cb vp) w = (case run_callback cb vp w of Inl err \<Rightarrow> w | Inr r \<Rightarrow> snd r)"
| "step (EvClock now) w = w\<lparr>clock := now\<rparr>"

fun run :: "event list \<Rightarrow> world \<Rightarrow> world" where
  "run [] w = w"
| "run (ev # evs) w = run evs (step ev w)"

text \<open>The ids an event can write into the authority slot.\<close>

fun slot_ids :: "event \<Rightarrow> string list" where
  "slot_ids (EvSetActivePlayer pid) = [pid]"
| "slot_ids (EvNgOnInit vp) = [playerId vp]"
| "slot_ids (EvOnPlayerReady target vp) = [playerId vp]"
| "slot_ids ev = []"

section \<open>Concrete values used to exercise the theorems\<close>

definition ex_state :: VideoState where
  "ex_state = \<lparr>currentTime = 120, playerState = 1, isPlaying = True, lastUpdate = 1000\<rparr>"

definition ex_service :: VideoStateService where
  "ex_service =
     \<lparr>videoConfig = defaultVideoConfig, videoStateSubject = ex_state, published = [ex_state],
      activePlayerId = Some ''player_a_1''\<rparr>"

definition ex_partial :: VideoStatePartial where
  "ex_partial = emptyPartial\<lparr>p_currentTime := Some 130\<rparr>"

definition ex_world :: world where
  "ex_world =
     \<lparr>service = ex_service, clock = 2000, nextHandle = 5, timers = [], engineCalls = [],
      outputs = []\<rparr>"

definition ex_engine :: engine where
  "ex_engine = \<lparr>getCurrentTime = 7, getPlayerState = 2\<rparr>"

definition ex_both_config :: VideoConfig where
  "ex_both_config =
     \<lparr>videoId = None, playlistId = Some ''X'', videoIds = Some [''a'', ''b'', ''c'']\<rparr>"

text \<open>
  Two main players. \<open>ex_A\<close> is initialised and becomes ready on a fresh service; then
  \<open>ex_B\<close> is initialised while \<open>ex_A\<close> is still alive.
\<close>

definition ex_A :: VideoPlayer where
  "ex_A = newVideoPlayer True ''aaaaaaa'' ''1000''"

definition ex_B :: VideoPlayer where
  "ex_B = newVideoPlayer True ''bbbbbbb'' ''1500''"

definition ex_buffering :: engine where
  "ex_buffering = \<lparr>getCurrentTime = 42, getPlayerState = 3\<rparr>"

definition ex_A_ready :: VideoPlayer where
  "ex_A_ready =
     fst (onPlayerReady ex_buffering (fst (ngOnInit ex_A (newWorld defaultVideoConfig 1000)))
            (snd (ngOnInit ex_A (newWorld defaultVideoConfig 1000))))"

text \<open>The world once \<open>ex_A\<close> is ready and its periodic save has run once.\<close>

definition ex_A_world :: world where
  "ex_A_world =
     step (EvCallback SaveStateTick ex_A_ready)
       (snd (onPlayerReady ex_buffering (fst (ngOnInit ex_A (newWorld defaultVideoConfig 1000)))
               (snd (ngOnInit ex_A (newWorld defaultVideoConfig 1000)))))"

definition ex_takeover :: world where
  "ex_takeover = snd (ngOnInit ex_B ex_A_world)"

text \<open>A mini player, not yet ready, next to a store that a main player has written.\<close>

definition ex_follower :: VideoPlayer where
  "ex_follower = newVideoPlayer False ''fffffff'' ''3000''"

text \<open>
  A history after \<open>ex_A\<close> is initialised: updates from two ids, the mini player's
  lifecycle, a forced write, the take-over by \<open>ex_B\<close> and the destruction of \<open>ex_A\<close>.
\<close>

definition ex_history :: "event list" where
  "ex_history =
     [EvOnPlayerReady ex_buffering ex_A,
      EvUpdateState ex_partial ''player_fffffff_3000'',
      EvNgOnInit ex_follower,
      EvOnPlayerReady ex_engine ex_follower,
      EvCallback (RestoreSeek 42) (ex_follower\<lparr>player := Some ex_engine, isPlayerReady := True\<rparr>),
      EvForceUpdateState ex_partial,
      EvClock 5000,
      EvNgOnInit ex_B,
      EvSetActivePlayer ''player_bbbbbbb_1500'',
      EvNgOnDestroy ex_A_ready,
      EvSavePlayerState 2 False ''player_aaaaaaa_1000'']"

section \<open>Properties of the store\<close>

lemma truthy_Some [simp]: "truthy (Some s) = (s \<noteq> [])"
  by (simp add: truthy_def)

lemma truthy_None [simp]: "truthy None = False"
  by (simp add: truthy_def)

lemma activePlayerId_updateState [simp]:
  "activePlayerId (updateState state pid now svc) = activePlayerId svc"
  by (simp add: updateState_def subject_next_def)

lemma activePlayerId_forceUpdateState [simp]:
  "activePlayerId (forceUpdateState state now svc) = activePlayerId svc"
  by (simp add: forceUpdateState_def subject_next_def)

lemma activePlayerId_apply_writes [simp]:
  "activePlayerId (apply_writes ws svc) = activePlayerId svc"
proof (induction ws arbitrary: svc)
  case Nil
  show ?case by simp
next
  case (Cons w ws)
  show ?case by (cases w) (simp_all add: Cons.IH)
qed

lemma updateState_rejected:
  "truthy (activePlayerId svc) \<Longrightarrow> activePlayerId svc \<noteq> Some pid \<Longrightarrow>
   updateState state pid now svc = svc"
  by (simp add: updateState_def)

lemma updateState_accepted:
  "\<not> truthy (activePlayerId svc) \<or> activePlayerId svc = Some pid \<Longrightarrow>
   updateState state pid now svc = forceUpdateState state now svc"
  by (auto simp add: updateState_def forceUpdateState_def)

lemma getCurrentState_forceUpdateState:
  "getCurrentState (forceUpdateState state now svc) = spread (getCurrentState svc) state now"
  by (simp add: forceUpdateState_def subject_next_def getCurrentState_def)

lemma published_forceUpdateState:
  "published (forceUpdateState state now svc)
     = published svc @ [spread (getCurrentState svc) state now]"
  by (simp add: forceUpdateState_def subject_next_def getCurrentState_def)

text \<open>
  C1. Gate of \<open>updateState\<close>. While the authority token is non-empty (truthy) and differs
  from the requester's id, \<open>updateState\<close> returns the service as it was: the snapshot
  that \<open>getCurrentState\<close> gives, its \<open>lastUpdate\<close>, the list of published values and
  the token are all the same, and the call has no error outcome. When the token is empty
  (\<open>null\<close> or the empty string) or equals the id, the call stores the partial merged
  over the current state with \<open>lastUpdate\<close> set to the clock reading of the call, and
  publishes exactly that one new state.
\<close>

theorem updateState_gate:
  "(truthy (activePlayerId svc) \<and> activePlayerId svc \<noteq> Some pid \<longrightarrow>
      updateState state pid now svc = svc
      \<and> getCurrentState (updateState state pid now svc) = getCurrentState svc
      \<and> lastUpdate (getCurrentState (updateState state pid now svc))
          = lastUpdate (getCurrentState svc)
      \<and> published (updateState state pid now svc) = published svc)
   \<and> (\<not> truthy (activePlayerId svc) \<or> activePlayerId svc = Some pid \<longrightarrow>
      getCurrentState (updateState state pid now svc)
          = spread (getCurrentState svc) state now
      \<and> lastUpdate (getCurrentState (updateState state pid now svc)) = now
      \<and> published (updateState state pid now svc)
          = published svc @ [spread (getCurrentState svc) state now]
      \<and> videoConfig (updateState state pid now svc) = videoConfig svc
      \<and> activePlayerId (updateState state pid now svc) = activePlayerId svc)"
  by (auto simp add: updateState_def subject_next_def getCurrentState_def spread_def)

theorem updateState_gate_witness:
  "(truthy (activePlayerId ex_service) \<and> activePlayerId ex_service \<noteq> Some ''player_b_2'')
   \<and> updateState ex_partial ''player_b_2'' 2000 ex_service = ex_service
   \<and> activePlayerId ex_service = Some ''player_a_1''
   \<and> getCurrentState (updateState ex_partial ''player_a_1'' 2000 ex_service)
       = \<lparr>currentTime = 130, playerState = 1, isPlaying = True, lastUpdate = 2000\<rparr>
   \<and> published (updateState ex_partial ''player_a_1'' 2000 ex_service)
       = [ex_state, \<lparr>currentTime = 130, playerState = 1, isPlaying = True, lastUpdate = 2000\<rparr>]"
  using updateState_gate [of ex_service "''player_b_2''" ex_partial 2000]
    updateState_gate [of ex_service "''player_a_1''" ex_partial 2000]
  by (simp add: ex_service_def ex_partial_def ex_state_def emptyPartial_def spread_def
      getCurrentState_def)

text \<open>
  C2 (as amended). A successful write (any \<open>forceUpdateState\<close>, and an
  \<open>updateState\<close> that passes the gate, which then does exactly what
  \<open>forceUpdateState\<close> does) takes \<open>currentTime\<close>, \<open>playerState\<close> and
  \<open>isPlaying\<close> from the partial where it names them and keeps the others; it sets
  \<open>lastUpdate\<close> to the reading of \<open>Date.now()\<close> made during the write, whatever
  the partial names for \<open>lastUpdate\<close>, so the new \<open>lastUpdate\<close> is greater than the
  previous one exactly when that reading is. \<open>forceUpdateState\<close> does this whatever the
  authority token holds, and leaves the token alone.
\<close>

theorem write_merges_and_stamps:
  "(\<not> truthy (activePlayerId svc) \<or> activePlayerId svc = Some pid \<longrightarrow>
      updateState state pid now svc = forceUpdateState state now svc)
   \<and> (p_currentTime state = Some t \<longrightarrow>
        currentTime (getCurrentState (forceUpdateState state now svc)) = t)
   \<and> (p_currentTime state = None \<longrightarrow>
        currentTime (getCurrentState (forceUpdateState state now svc))
          = currentTime (getCurrentState svc))
   \<and> (p_playerState state = Some ps \<longrightarrow>
        playerState (getCurrentState (forceUpdateState state now svc)) = ps)
   \<and> (p_playerState state = None \<longrightarrow>
        playerState (getCurrentState (forceUpdateState state now svc))
          = playerState (getCurrentState svc))
   \<and> (p_isPlaying state = Some b \<longrightarrow>
        isPlaying (getCurrentState (forceUpdateState state now svc)) = b)
   \<and> (p_isPlaying state = None \<longrightarrow>
        isPlaying (getCurrentState (forceUpdateState state now svc))
          = isPlaying (getCurrentState svc))
   \<and> lastUpdate (getCurrentState (forceUpdateState state now svc)) = now
   \<and> (lastUpdate (getCurrentState svc)
          < lastUpdate (getCurrentState (forceUpdateState state now svc))
        \<longleftrightarrow> lastUpdate (getCurrentState svc) < now)
   \<and> forceUpdateState state now (svc\<lparr>activePlayerId := tok\<rparr>)
        = (forceUpdateState state now svc)\<lparr>activePlayerId := tok\<rparr>
   \<and> activePlayerId (forceUpdateState state now svc) = activePlayerId svc"
  by (auto simp add: updateState_def forceUpdateState_def subject_next_def
      getCurrentState_def spread_def)

theorem write_merges_and_stamps_witness:
  "activePlayerId ex_service = Some ''player_a_1''
   \<and> p_currentTime ex_partial = Some 130
   \<and> p_playerState ex_partial = None
   \<and> p_isPlaying ex_partial = None
   \<and> updateState ex_partial ''player_a_1'' 2000 ex_service
        = forceUpdateState ex_partial 2000 ex_service
   \<and> getCurrentState (forceUpdateState ex_partial 2000 ex_service)
        = \<lparr>currentTime = 130, playerState = 1, isPlaying = True, lastUpdate = 2000\<rparr>
   \<and> lastUpdate (getCurrentState ex_service)
        < lastUpdate (getCurrentState (forceUpdateState ex_partial 2000 ex_service))"
  using write_merges_and_stamps [of ex_service "''player_a_1''" ex_partial 2000 130 1 True None]
  by (simp add: ex_service_def ex_partial_def ex_state_def emptyPartial_def
      getCurrentState_def forceUpdateState_def subject_next_def spread_def)

text \<open>
  C2 as stated fails. The service is created at clock reading 1000 and a forced write
  follows within the same millisecond, its partial naming \<open>lastUpdate = 5000\<close>: the new
  \<open>lastUpdate\<close> is 1000 again, neither greater than the previous one nor the value the
  partial names.
\<close>

theorem lastUpdate_strict_counterexample:
  "\<not> lastUpdate (getCurrentState (newVideoStateService defaultVideoConfig 1000))
       < lastUpdate (getCurrentState
           (forceUpdateState (emptyPartial\<lparr>p_isPlaying := Some True, p_lastUpdate := Some 5000\<rparr>)
              1000 (newVideoStateService defaultVideoConfig 1000)))
   \<and> lastUpdate (getCurrentState
           (forceUpdateState (emptyPartial\<lparr>p_isPlaying := Some True, p_lastUpdate := Some 5000\<rparr>)
              1000 (newVideoStateService defaultVideoConfig 1000))) \<noteq> 5000"
  by (simp add: newVideoStateService_def initialState_def forceUpdateState_def
      subject_next_def getCurrentState_def spread_def emptyPartial_def)

text \<open>
  C3. Handing over authority. For producer ids \<open>A \<noteq> B\<close> (a producer id is never
  empty, see \<open>playerId_newVideoPlayer\<close>): \<open>setActivePlayer B\<close> puts \<open>B\<close> in the slot
  whatever it held, changes nothing else of the service and publishes nothing. After it,
  and after any further gated or forced writes \<open>ws\<close>, an \<open>updateState\<close> from \<open>A\<close>
  leaves the service as it is, and one from \<open>B\<close> stores and publishes the merged state.
\<close>

theorem setActivePlayer_hands_over:
  "A \<noteq> B \<Longrightarrow> B \<noteq> [] \<Longrightarrow>
   activePlayerId (setActivePlayer B svc) = Some B
   \<and> videoStateSubject (setActivePlayer B svc) = videoStateSubject svc
   \<and> published (setActivePlayer B svc) = published svc
   \<and> videoConfig (setActivePlayer B svc) = videoConfig svc
   \<and> updateState state A now (apply_writes ws (setActivePlayer B svc))
        = apply_writes ws (setActivePlayer B svc)
   \<and> getCurrentState (updateState state B now (apply_writes ws (setActivePlayer B svc)))
        = spread (getCurrentState (apply_writes ws (setActivePlayer B svc))) state now
   \<and> published (updateState state B now (apply_writes ws (setActivePlayer B svc)))
        = published (apply_writes ws (setActivePlayer B svc))
            @ [spread (getCurrentState (apply_writes ws (setActivePlayer B svc))) state now]"
proof -
  assume ne: "A \<noteq> B" and nonempty: "B \<noteq> []"
  let ?s = "apply_writes ws (setActivePlayer B svc)"
  have rejected: "updateState state A now ?s = ?s"
    using ne nonempty by (intro updateState_rejected) (simp_all add: setActivePlayer_def)
  have accepted: "updateState state B now ?s = forceUpdateState state now ?s"
    by (intro updateState_accepted) (simp add: setActivePlayer_def)
  show ?thesis
    using rejected accepted
    by (simp add: getCurrentState_forceUpdateState published_forceUpdateState)
      (simp add: setActivePlayer_def)
qed

theorem setActivePlayer_hands_over_witness:
  "''player_a_1'' \<noteq> ''player_b_2'' \<and> ''player_b_2'' \<noteq> []
   \<and> activePlayerId ex_service = Some ''player_a_1''
   \<and> activePlayerId (setActivePlayer ''player_b_2'' ex_service) = Some ''player_b_2''
   \<and> updateState ex_partial ''player_a_1'' 2000
        (apply_writes [Gated ex_partial ''player_b_2'' 1500, Forced emptyPartial 1600]
           (setActivePlayer ''player_b_2'' ex_service))
      = apply_writes [Gated ex_partial ''player_b_2'' 1500, Forced emptyPartial 1600]
           (setActivePlayer ''player_b_2'' ex_service)
   \<and> getCurrentState (updateState (emptyPartial\<lparr>p_isPlaying := Some False\<rparr>) ''player_b_2'' 2000
        (apply_writes [Gated ex_partial ''player_b_2'' 1500, Forced emptyPartial 1600]
           (setActivePlayer ''player_b_2'' ex_service)))
      = \<lparr>currentTime = 130, playerState = 1, isPlaying = False, lastUpdate = 2000\<rparr>"
proof -
  have d: "''player_a_1'' \<noteq> ''player_b_2''" by simp
  have n: "''player_b_2'' \<noteq> []" by simp
  show ?thesis
    using setActivePlayer_hands_over [OF d n, of ex_service ex_partial 2000
        "[Gated ex_partial ''player_b_2'' 1500, Forced emptyPartial 1600]"]
      setActivePlayer_hands_over [OF d n, of ex_service "emptyPartial\<lparr>p_isPlaying := Some False\<rparr>"
        2000 "[Gated ex_partial ''player_b_2'' 1500, Forced emptyPartial 1600]"]
    by (simp add: ex_service_def ex_partial_def ex_state_def emptyPartial_def
        getCurrentState_def forceUpdateState_def updateState_def setActivePlayer_def
        subject_next_def spread_def)
qed

section \<open>Properties of the player component\<close>

lemma playerId_newVideoPlayer: "playerId (newVideoPlayer isMain rnd stamp) \<noteq> []"
  by (simp add: newVideoPlayer_def)

lemma playerId_setupPlayerConfig [simp]: "playerId (setupPlayerConfig vp) = playerId vp"
  by (simp add: setupPlayerConfig_def split: option.splits)

lemma isMainPlayer_setupPlayerConfig [simp]:
  "isMainPlayer (setupPlayerConfig vp) = isMainPlayer vp"
  by (simp add: setupPlayerConfig_def split: option.splits)

lemma player_setupPlayerConfig [simp]: "player (setupPlayerConfig vp) = player vp"
  by (simp add: setupPlayerConfig_def split: option.splits)

lemma playerId_ngOnInit: "playerId (fst (ngOnInit vp w)) = playerId vp"
  by (simp add: ngOnInit_def Let_def)

lemma playerId_onPlayerReady: "playerId (fst (onPlayerReady target vp w)) = playerId vp"
  by (simp add: onPlayerReady_def Let_def split_def)

lemma run_callback_same_player: "run_callback cb vp w = Inr (vp', w') \<Longrightarrow> vp' = vp"
  by (cases cb) (auto simp add: Let_def split: option.splits if_splits)

text \<open>
  C4 (as amended). When the configuration sets both a playlist id \<open>X\<close> and a list of
  more than one video id, \<open>ngOnInit\<close> resolves the player parameters to the playlist:
  \<open>listType = 'playlist'\<close>, \<open>list = X\<close>, no \<open>playlist\<close> key, the other parameters
  as they were, and the same parameters whatever the list of video ids is. The primary
  video that \<open>getVideoId\<close> returns is nevertheless the first element of that list.
\<close>

theorem playlist_takes_precedence:
  "videoConfig (service w) = cfg \<Longrightarrow> playlistId cfg = Some X \<Longrightarrow> X \<noteq> [] \<Longrightarrow>
   videoIds cfg = Some ids \<Longrightarrow> length ids > 1 \<Longrightarrow>
   playerConfig (fst (ngOnInit vp w))
     = (playerConfig vp)\<lparr>listType := Some ''playlist'', list := Some X, playlist := None\<rparr>
   \<and> playerConfig (fst (ngOnInit vp (w\<lparr>service := (service w)\<lparr>videoConfig := cfg\<lparr>videoIds := other\<rparr>\<rparr>\<rparr>)))
     = playerConfig (fst (ngOnInit vp w))
   \<and> getVideoId (fst (ngOnInit vp w)) = ids ! 0"
proof -
  assume cfg: "videoConfig (service w) = cfg" and pl: "playlistId cfg = Some X" "X \<noteq> []"
    and ids: "videoIds cfg = Some ids" "length ids > 1"
  obtain x rest where split: "ids = x # rest"
    using ids(2) by (cases ids) auto
  have config: "playerConfig (fst (ngOnInit vp w))
      = (playerConfig vp)\<lparr>listType := Some ''playlist'', list := Some X, playlist := None\<rparr>"
    using cfg pl by (simp add: ngOnInit_def Let_def getVideoConfig_def setupPlayerConfig_def)
  have other: "playerConfig (fst (ngOnInit vp (w\<lparr>service := (service w)\<lparr>videoConfig := cfg\<lparr>videoIds := other\<rparr>\<rparr>\<rparr>)))
      = (playerConfig vp)\<lparr>listType := Some ''playlist'', list := Some X, playlist := None\<rparr>"
    using pl by (simp add: ngOnInit_def Let_def getVideoConfig_def setupPlayerConfig_def)
  have target: "getVideoId (fst (ngOnInit vp w)) = ids ! 0"
    using cfg ids(1) split
    by (simp add: ngOnInit_def Let_def getVideoConfig_def setupPlayerConfig_def getVideoId_def
        split: option.splits)
  show ?thesis
    using config other target by simp
qed

theorem playlist_takes_precedence_witness:
  "playerConfig (fst (ngOnInit ex_A (newWorld ex_both_config 1000)))
     = \<lparr>autoplay = 1, mute = 1, loop = 1, listType = Some ''playlist'', list = Some ''X'',
        playlist = None, index = 0\<rparr>
   \<and> getVideoId (fst (ngOnInit ex_A (newWorld ex_both_config 1000))) = ''a''"
proof -
  have h1: "videoConfig (service (newWorld ex_both_config 1000)) = ex_both_config"
    by (simp add: newWorld_def newVideoStateService_def)
  have h2: "playlistId ex_both_config = Some ''X''"
    by (simp add: ex_both_config_def)
  have h3: "''X'' \<noteq> []"
    by simp
  have h4: "videoIds ex_both_config = Some [''a'', ''b'', ''c'']"
    by (simp add: ex_both_config_def)
  have h5: "length [''a'', ''b'', ''c''] > 1"
    by simp
  show ?thesis
    using playlist_takes_precedence [OF h1 h2 h3 h4 h5, of ex_A None]
    by (simp add: ex_A_def newVideoPlayer_def initialPlayerConfig_def)
qed

text \<open>
  C4 as stated fails for the primary target: with playlist id \<open>X\<close> and video ids
  \<open>a, b, c\<close> both set, \<open>getVideoId\<close> returns \<open>a\<close>, while with the playlist id alone
  it returns the empty string. The list of video ids is not ignored there.
\<close>

theorem primary_target_counterexample:
  "getVideoId (fst (ngOnInit ex_A (newWorld ex_both_config 1000))) = ''a''
   \<and> getVideoId (fst (ngOnInit ex_A (newWorld (ex_both_config\<lparr>videoIds := None\<rparr>) 1000))) = []"
  by (simp add: ngOnInit_def Let_def getVideoConfig_def setupPlayerConfig_def getVideoId_def
      newWorld_def newVideoStateService_def ex_both_config_def ex_A_def newVideoPlayer_def)

text \<open>
  C5 (as amended). When the player of a ready main component reports state 0,
  \<open>onStateChange\<close> only registers a one-shot timer of 100 ms and leaves the store as it
  is. When that closure runs, in whatever world \<open>u\<close> has come about by then, it sends
  \<open>seekTo(0, true)\<close> and \<open>playVideo()\<close> to the player and calls the gated
  \<open>updateState\<close> under the component's id: if the authority token is then empty or
  the component's own, the store holds \<open>currentTime = 0\<close>, \<open>isPlaying = true\<close>,
  \<open>playerState = 1\<close>; if the token is another component's, the store is unchanged.
\<close>

theorem ended_restarts_loop:
  "isMainPlayer vp \<Longrightarrow> player vp = Some e \<Longrightarrow> isPlayerReady vp \<Longrightarrow>
   fst (onStateChange 0 vp w) = vp
   \<and> timers (snd (onStateChange 0 vp w))
       = timers w @ [\<lparr>handle = nextHandle w, owner = playerId vp, delay = 100,
                       repeating = False, callback = LoopRestart\<rparr>]
   \<and> service (snd (onStateChange 0 vp w)) = service w
   \<and> engineCalls (snd (onStateChange 0 vp w)) = engineCalls w
   \<and> (\<exists>u'. run_callback LoopRestart vp u = Inr (vp, u')
        \<and> engineCalls u' = engineCalls u @ [(playerId vp, SeekTo 0 True), (playerId vp, PlayVideo)]
        \<and> (\<not> truthy (activePlayerId (service u)) \<or> activePlayerId (service u) = Some (playerId vp)
             \<longrightarrow> currentTime (getCurrentState (service u')) = 0
               \<and> isPlaying (getCurrentState (service u')) = True
               \<and> playerState (getCurrentState (service u')) = 1
               \<and> lastUpdate (getCurrentState (service u')) = clock u)
        \<and> (truthy (activePlayerId (service u)) \<and> activePlayerId (service u) \<noteq> Some (playerId vp)
             \<longrightarrow> service u' = service u))"
proof -
  assume main: "isMainPlayer vp" and handle: "player vp = Some e" and ready: "isPlayerReady vp"
  have registered: "onStateChange 0 vp w = (vp, setTimeout (playerId vp) LoopRestart 100 w)"
    using main handle ready by (simp add: onStateChange_def)
  let ?p = "emptyPartial\<lparr>p_currentTime := Some 0, p_isPlaying := Some True, p_playerState := Some 1\<rparr>"
  let ?u' = "pushState vp ?p (engineCall vp PlayVideo (engineCall vp (SeekTo 0 True) u))"
  have fired: "run_callback LoopRestart vp u = Inr (vp, ?u')"
    using handle by simp
  have calls: "engineCalls ?u'
      = engineCalls u @ [(playerId vp, SeekTo 0 True), (playerId vp, PlayVideo)]"
    by (simp add: pushState_def engineCall_def)
  have store: "service ?u' = updateState ?p (playerId vp) (clock u) (service u)"
    by (simp add: pushState_def engineCall_def)
  have accepted: "\<not> truthy (activePlayerId (service u)) \<or> activePlayerId (service u) = Some (playerId vp)
      \<Longrightarrow> getCurrentState (service ?u') = spread (getCurrentState (service u)) ?p (clock u)"
    by (simp add: store updateState_accepted getCurrentState_forceUpdateState)
  have rejected: "truthy (activePlayerId (service u)) \<and> activePlayerId (service u) \<noteq> Some (playerId vp)
      \<Longrightarrow> service ?u' = service u"
    by (simp add: store updateState_rejected)
  have after: "\<exists>u'. run_callback LoopRestart vp u = Inr (vp, u')
        \<and> engineCalls u' = engineCalls u @ [(playerId vp, SeekTo 0 True), (playerId vp, PlayVideo)]
        \<and> (\<not> truthy (activePlayerId (service u)) \<or> activePlayerId (service u) = Some (playerId vp)
             \<longrightarrow> currentTime (getCurrentState (service u')) = 0
               \<and> isPlaying (getCurrentState (service u')) = True
               \<and> playerState (getCurrentState (service u')) = 1
               \<and> lastUpdate (getCurrentState (service u')) = clock u)
        \<and> (truthy (activePlayerId (service u)) \<and> activePlayerId (service u) \<noteq> Some (playerId vp)
             \<longrightarrow> service u' = service u)"
  proof (intro exI [of _ ?u'] conjI impI)
    show "run_callback LoopRestart vp u = Inr (vp, ?u')"
      by (rule fired)
    show "engineCalls ?u'
        = engineCalls u @ [(playerId vp, SeekTo 0 True), (playerId vp, PlayVideo)]"
      by (rule calls)
  next
    assume ok: "\<not> truthy (activePlayerId (service u)) \<or> activePlayerId (service u) = Some (playerId vp)"
    show "currentTime (getCurrentState (service ?u')) = 0"
      by (simp only: accepted [OF ok]) (simp add: spread_def emptyPartial_def)
    show "isPlaying (getCurrentState (service ?u')) = True"
      by (simp only: accepted [OF ok]) (simp add: spread_def emptyPartial_def)
    show "playerState (getCurrentState (service ?u')) = 1"
      by (simp only: accepted [OF ok]) (simp add: spread_def emptyPartial_def)
    show "lastUpdate (getCurrentState (service ?u')) = clock u"
      by (simp only: accepted [OF ok]) (simp add: spread_def emptyPartial_def)
  next
    assume "truthy (activePlayerId (service u)) \<and> activePlayerId (service u) \<noteq> Some (playerId vp)"
    then show "service ?u' = service u"
      by (rule rejected)
  qed
  show ?thesis
    using after by (simp add: registered setTimeout_def setTimer_def)
qed

lemma ex_A_ready_eq:
  "ex_A_ready =
     \<lparr>isMainPlayer = True, vp_videoConfig = Some defaultVideoConfig,
      vp_videoId = ''WdxYgjjPSjg'', vp_playlistId = None, vp_videoIds = None,
      player = Some ex_buffering, vp_currentTime = 0, isPlayerReady = True,
      vp_playerState = -1, saveStateInterval = Some 1,
      playerId = ''player_aaaaaaa_1000'', playerConfig = initialPlayerConfig\<rparr>"
  by (simp add: ex_A_ready_def ex_A_def newVideoPlayer_def newWorld_def
      newVideoStateService_def ngOnInit_def onPlayerReady_def Let_def split_def
      getVideoConfig_def getCurrentState_def setupPlayerConfig_def singleVideoConfig_def
      defaultVideoConfig_def videoIdOrDefault_def initialPlayerConfig_def initialState_def
      setActivePlayer_def clearSaveStateInterval_def setInterval_def setTimer_def
      setTimeout_def emit_def)

lemma ex_A_world_service:
  "service ex_A_world =
     \<lparr>videoConfig = defaultVideoConfig,
      videoStateSubject = \<lparr>currentTime = 42, playerState = 3, isPlaying = False, lastUpdate = 1000\<rparr>,
      published = [\<lparr>currentTime = 42, playerState = 3, isPlaying = False, lastUpdate = 1000\<rparr>],
      activePlayerId = Some ''player_aaaaaaa_1000''\<rparr>"
  by (simp add: ex_A_world_def ex_A_ready_eq)
    (simp add: ex_A_def ex_buffering_def newVideoPlayer_def newWorld_def
      newVideoStateService_def ngOnInit_def onPlayerReady_def Let_def split_def
      getVideoConfig_def getCurrentState_def setupPlayerConfig_def singleVideoConfig_def
      defaultVideoConfig_def videoIdOrDefault_def initialPlayerConfig_def initialState_def
      setActivePlayer_def clearSaveStateInterval_def setInterval_def setTimer_def
      setTimeout_def emit_def pushState_def engineCall_def updateState_def subject_next_def
      spread_def emptyPartial_def)

lemma ex_takeover_service:
  "service ex_takeover = (service ex_A_world)\<lparr>activePlayerId := Some ''player_bbbbbbb_1500''\<rparr>"
  by (simp add: ex_takeover_def ngOnInit_def Let_def ex_B_def newVideoPlayer_def
      setActivePlayer_def)

theorem ended_restarts_loop_witness:
  "activePlayerId (service ex_A_world) = Some (playerId ex_A_ready)
   \<and> (\<exists>u'. run_callback LoopRestart ex_A_ready ex_A_world = Inr (ex_A_ready, u')
        \<and> currentTime (getCurrentState (service u')) = 0
        \<and> isPlaying (getCurrentState (service u')) = True
        \<and> playerState (getCurrentState (service u')) = 1)"
proof -
  have main: "isMainPlayer ex_A_ready"
    by (simp add: ex_A_ready_eq)
  have handle: "player ex_A_ready = Some ex_buffering"
    by (simp add: ex_A_ready_eq)
  have ready: "isPlayerReady ex_A_ready"
    by (simp add: ex_A_ready_eq)
  have token: "activePlayerId (service ex_A_world) = Some (playerId ex_A_ready)"
    by (simp add: ex_A_world_service ex_A_ready_eq)
  show ?thesis
    using ended_restarts_loop [OF main handle ready, of ex_A_world ex_A_world] token
    by auto
qed

text \<open>
  C5 as stated fails once another main player has taken the token. \<open>ex_A\<close> is a ready
  main player and the store holds the telemetry of its last periodic save; \<open>ex_B\<close>, a
  second main player, is then initialised. When the player of \<open>ex_A\<close> reports state 0
  and the 100 ms closure runs, \<open>ex_A\<close> seeks to 0 and plays, but the store still holds
  \<open>currentTime = 42\<close>, \<open>isPlaying = false\<close>, \<open>playerState = 3\<close>.
\<close>

theorem ended_store_counterexample:
  "isMainPlayer ex_A_ready \<and> isPlayerReady ex_A_ready \<and> player ex_A_ready = Some ex_buffering
   \<and> engineCalls (run [EvOnStateChange 0 ex_A_ready, EvCallback LoopRestart ex_A_ready] ex_takeover)
       = engineCalls ex_takeover
           @ [(''player_aaaaaaa_1000'', SeekTo 0 True), (''player_aaaaaaa_1000'', PlayVideo)]
   \<and> getCurrentState
        (service (run [EvOnStateChange 0 ex_A_ready, EvCallback LoopRestart ex_A_ready] ex_takeover))
       = \<lparr>currentTime = 42, playerState = 3, isPlaying = False, lastUpdate = 1000\<rparr>"
  by (simp add: ex_A_ready_eq onStateChange_def setTimeout_def setTimer_def pushState_def
      engineCall_def ex_takeover_service ex_A_world_service updateState_def getCurrentState_def)

text \<open>
  C6. A mini player (\<open>isMainPlayer = false\<close>) becomes ready while the store holds a
  \<open>currentTime\<close> above 0. \<open>onPlayerReady\<close> registers one one-shot timer of 500 ms whose
  closure carries that stored time, and touches neither the service nor the player. When
  the closure runs (in any later world \<open>u\<close>) it sends \<open>seekTo\<close> to the stored time and
  then \<open>mute()\<close>, and registers a one-shot timer of 200 ms; when that one runs (in any
  later world \<open>v\<close>) it sends \<open>playVideo()\<close> and calls \<open>updateState\<close> with
  \<open>isPlaying = true\<close> under the component's own id. The authority token is the same
  after each of the three steps.
\<close>

theorem follower_resumes_from_store:
  "\<not> isMainPlayer vp \<Longrightarrow> 0 < currentTime (getCurrentState (service w)) \<Longrightarrow>
   fst (onPlayerReady target vp w) = vp\<lparr>player := Some target, isPlayerReady := True\<rparr>
   \<and> timers (snd (onPlayerReady target vp w))
       = timers w @ [\<lparr>handle = nextHandle w, owner = playerId vp, delay = 500, repeating = False,
                       callback = RestoreSeek (currentTime (getCurrentState (service w)))\<rparr>]
   \<and> service (snd (onPlayerReady target vp w)) = service w
   \<and> engineCalls (snd (onPlayerReady target vp w)) = engineCalls w
   \<and> (\<exists>u'. run_callback (RestoreSeek (currentTime (getCurrentState (service w))))
               (fst (onPlayerReady target vp w)) u
               = Inr (fst (onPlayerReady target vp w), u')
        \<and> engineCalls u' = engineCalls u @ [(playerId vp, SeekTo (currentTime (getCurrentState (service w))) True),
                                          (playerId vp, Mute)]
        \<and> timers u' = timers u @ [\<lparr>handle = nextHandle u, owner = playerId vp, delay = 200,
                                     repeating = False, callback = RestorePlay\<rparr>]
        \<and> service u' = service u)
   \<and> (\<exists>v'. run_callback RestorePlay (fst (onPlayerReady target vp w)) v
               = Inr (fst (onPlayerReady target vp w), v')
        \<and> engineCalls v' = engineCalls v @ [(playerId vp, PlayVideo)]
        \<and> service v' = updateState (emptyPartial\<lparr>p_isPlaying := Some True\<rparr>) (playerId vp)
                           (clock v) (service v)
        \<and> activePlayerId (service v') = activePlayerId (service v))"
proof -
  assume mini: "\<not> isMainPlayer vp" and stored: "0 < currentTime (getCurrentState (service w))"
  let ?vp = "vp\<lparr>player := Some target, isPlayerReady := True\<rparr>"
  have ready: "onPlayerReady target vp w
      = (?vp, emit ?vp PlayerReady
                (setTimeout (playerId vp)
                   (RestoreSeek (currentTime (getCurrentState (service w)))) 500 w))"
    using mini stored by (simp add: onPlayerReady_def Let_def)
  have seek: "\<exists>u'. run_callback (RestoreSeek (currentTime (getCurrentState (service w)))) ?vp u = Inr (?vp, u')
        \<and> engineCalls u' = engineCalls u @ [(playerId vp, SeekTo (currentTime (getCurrentState (service w))) True),
                                          (playerId vp, Mute)]
        \<and> timers u' = timers u @ [\<lparr>handle = nextHandle u, owner = playerId vp, delay = 200,
                                     repeating = False, callback = RestorePlay\<rparr>]
        \<and> service u' = service u"
    using mini by (simp add: Let_def engineCall_def setTimeout_def setTimer_def)
  have play: "\<exists>v'. run_callback RestorePlay ?vp v = Inr (?vp, v')
        \<and> engineCalls v' = engineCalls v @ [(playerId vp, PlayVideo)]
        \<and> service v' = updateState (emptyPartial\<lparr>p_isPlaying := Some True\<rparr>) (playerId vp)
                           (clock v) (service v)
        \<and> activePlayerId (service v') = activePlayerId (service v)"
    by (simp add: engineCall_def pushState_def)
  show ?thesis
    using seek play by (simp add: ready emit_def setTimeout_def setTimer_def)
qed

theorem follower_resumes_from_store_witness:
  "currentTime (getCurrentState (service ex_world)) = 120
   \<and> timers (snd (onPlayerReady ex_engine ex_follower ex_world))
       = [\<lparr>handle = 5, owner = ''player_fffffff_3000'', delay = 500, repeating = False,
           callback = RestoreSeek 120\<rparr>]
   \<and> activePlayerId (service (snd (onPlayerReady ex_engine ex_follower ex_world)))
       = Some ''player_a_1''
   \<and> (\<exists>u'. run_callback (RestoreSeek 120) (fst (onPlayerReady ex_engine ex_follower ex_world))
               ex_world
             = Inr (fst (onPlayerReady ex_engine ex_follower ex_world), u')
        \<and> engineCalls u' = [(''player_fffffff_3000'', SeekTo 120 True),
                             (''player_fffffff_3000'', Mute)]
        \<and> activePlayerId (service u') = Some ''player_a_1'')"
proof -
  have mini: "\<not> isMainPlayer ex_follower"
    by (simp add: ex_follower_def newVideoPlayer_def)
  have stored: "0 < currentTime (getCurrentState (service ex_world))"
    by (simp add: ex_world_def ex_service_def ex_state_def getCurrentState_def)
  show ?thesis
    using follower_resumes_from_store [OF mini stored, of ex_engine ex_world ex_world]
    by (simp add: ex_world_def ex_service_def ex_state_def getCurrentState_def
        ex_follower_def newVideoPlayer_def engineCall_def setTimeout_def setTimer_def)
qed

text \<open>
  C7. The periodic save. \<open>onPlayerReady\<close> of a main component registers a repeating
  timer of 250 ms for the save and keeps its handle. Each run of the save on a component
  with a ready player reads the player's time and state code, sends \<open>playVideo()\<close>
  exactly when the code is neither 1 nor 0, and then calls the gated \<open>updateState\<close>
  under the component's own id with that time, that code and \<open>isPlaying\<close> set to
  whether the code is 1.
\<close>

theorem periodic_save_tick:
  "(isMainPlayer vp \<longrightarrow>
      player (fst (onPlayerReady target vp w)) = Some target
      \<and> isPlayerReady (fst (onPlayerReady target vp w))
      \<and> saveStateInterval (fst (onPlayerReady target vp w))
          = Some (nextHandle (clearSaveStateInterval vp w))
      \<and> \<lparr>handle = nextHandle (clearSaveStateInterval vp w), owner = playerId vp, delay = 250,
          repeating = True, callback = SaveStateTick\<rparr>
           \<in> set (timers (snd (onPlayerReady target vp w))))
   \<and> (player vp = Some e \<and> isPlayerReady vp \<longrightarrow>
      (\<exists>w'. run_callback SaveStateTick vp w = Inr (vp, w')
        \<and> engineCalls w'
            = engineCalls w @ (if getPlayerState e \<noteq> 1 \<and> getPlayerState e \<noteq> 0
                               then [(playerId vp, PlayVideo)] else [])
        \<and> service w'
            = updateState \<lparr>p_currentTime = Some (getCurrentTime e),
                            p_playerState = Some (getPlayerState e),
                            p_isPlaying = Some (getPlayerState e = 1), p_lastUpdate = None\<rparr>
                (playerId vp) (clock w) (service w)
        \<and> timers w' = timers w))"
proof (intro conjI impI)
  assume main: "isMainPlayer vp"
  let ?vp = "vp\<lparr>player := Some target, isPlayerReady := True\<rparr>"
  let ?w1 = "clearSaveStateInterval vp (w\<lparr>service := setActivePlayer (playerId vp) (service w)\<rparr>)"
  have handles: "nextHandle ?w1 = nextHandle (clearSaveStateInterval vp w)"
    by (simp add: clearSaveStateInterval_def clearInterval_def split: option.splits)
  have comp: "fst (onPlayerReady target vp w) = ?vp\<lparr>saveStateInterval := Some (nextHandle ?w1)\<rparr>"
    using main
    by (simp add: onPlayerReady_def Let_def split_def setInterval_def setTimer_def
        clearSaveStateInterval_def)
  have pending: "\<lparr>handle = nextHandle ?w1, owner = playerId vp, delay = 250,
          repeating = True, callback = SaveStateTick\<rparr>
           \<in> set (timers (snd (onPlayerReady target vp w)))"
    using main
    by (simp add: onPlayerReady_def Let_def split_def setInterval_def setTimer_def
        clearSaveStateInterval_def setTimeout_def emit_def)
  show "player (fst (onPlayerReady target vp w)) = Some target"
    by (simp add: comp)
  show "isPlayerReady (fst (onPlayerReady target vp w))"
    by (simp add: comp)
  show "saveStateInterval (fst (onPlayerReady target vp w))
          = Some (nextHandle (clearSaveStateInterval vp w))"
    by (simp add: comp handles)
  show "\<lparr>handle = nextHandle (clearSaveStateInterval vp w), owner = playerId vp, delay = 250,
          repeating = True, callback = SaveStateTick\<rparr>
           \<in> set (timers (snd (onPlayerReady target vp w)))"
    using pending by (simp only: handles)
next
  assume "player vp = Some e \<and> isPlayerReady vp"
  then show "\<exists>w'. run_callback SaveStateTick vp w = Inr (vp, w')
        \<and> engineCalls w'
            = engineCalls w @ (if getPlayerState e \<noteq> 1 \<and> getPlayerState e \<noteq> 0
                               then [(playerId vp, PlayVideo)] else [])
        \<and> service w'
            = updateState \<lparr>p_currentTime = Some (getCurrentTime e),
                            p_playerState = Some (getPlayerState e),
                            p_isPlaying = Some (getPlayerState e = 1), p_lastUpdate = None\<rparr>
                (playerId vp) (clock w) (service w)
        \<and> timers w' = timers w"
    by (simp add: Let_def pushState_def engineCall_def emptyPartial_def)
qed

theorem periodic_save_tick_witness:
  "isMainPlayer ex_A \<and> player ex_A_ready = Some ex_buffering \<and> isPlayerReady ex_A_ready
   \<and> saveStateInterval (fst (onPlayerReady ex_buffering ex_A ex_world)) = Some 5
   \<and> \<lparr>handle = 5, owner = ''player_aaaaaaa_1000'', delay = 250, repeating = True,
       callback = SaveStateTick\<rparr>
        \<in> set (timers (snd (onPlayerReady ex_buffering ex_A ex_world)))
   \<and> (\<exists>w'. run_callback SaveStateTick ex_A_ready ex_A_world = Inr (ex_A_ready, w')
        \<and> engineCalls w' = engineCalls ex_A_world @ [(''player_aaaaaaa_1000'', PlayVideo)]
        \<and> getCurrentState (service w')
            = \<lparr>currentTime = 42, playerState = 3, isPlaying = False,
               lastUpdate = clock ex_A_world\<rparr>)"
proof -
  have main: "isMainPlayer ex_A"
    by (simp add: ex_A_def newVideoPlayer_def)
  have ready: "player ex_A_ready = Some ex_buffering \<and> isPlayerReady ex_A_ready"
    by (simp add: ex_A_ready_eq)
  have fresh: "nextHandle (clearSaveStateInterval ex_A ex_world) = 5"
    by (simp add: clearSaveStateInterval_def ex_A_def newVideoPlayer_def ex_world_def)
  show ?thesis
    using periodic_save_tick [of ex_A ex_buffering ex_world ex_buffering]
      periodic_save_tick [of ex_A_ready ex_buffering ex_A_world ex_buffering]
      main ready fresh
    by (auto simp add: ex_A_ready_eq ex_buffering_def ex_A_world_service updateState_def
        subject_next_def spread_def getCurrentState_def ex_A_def newVideoPlayer_def)
qed

text \<open>
  C8. A component whose player handle is \<open>null\<close>. \<open>ngOnDestroy\<close>, \<open>onStateChange\<close>
  (for every state code) and \<open>syncWith\<close> (for every time and state) leave the service
  and the log of player commands exactly as they were and return the component unchanged;
  \<open>syncWith\<close> changes nothing at all. None of the three has an error outcome. A
  component that has been constructed and initialised, and whose ready callback has not
  run, is in that situation.
\<close>

theorem null_player_is_inert:
  "player vp = None \<Longrightarrow>
   fst (ngOnDestroy vp w) = vp
   \<and> service (snd (ngOnDestroy vp w)) = service w
   \<and> engineCalls (snd (ngOnDestroy vp w)) = engineCalls w
   \<and> fst (onStateChange dat vp w) = vp
   \<and> service (snd (onStateChange dat vp w)) = service w
   \<and> engineCalls (snd (onStateChange dat vp w)) = engineCalls w
   \<and> timers (snd (onStateChange dat vp w)) = timers w
   \<and> syncWith time state vp w = (vp, w)
   \<and> player (fst (ngOnInit (newVideoPlayer isMain rnd stamp) w)) = None"
proof -
  assume null: "player vp = None"
  have destroy: "ngOnDestroy vp w = (vp, clearSaveStateInterval vp w)"
    using null by (simp add: ngOnDestroy_def Let_def)
  have cleared: "service (clearSaveStateInterval vp w) = service w
      \<and> engineCalls (clearSaveStateInterval vp w) = engineCalls w"
    by (simp add: clearSaveStateInterval_def clearInterval_def split: option.splits)
  have change: "onStateChange dat vp w = (vp, emit vp (StateChange dat) w)"
    using null by (simp add: onStateChange_def)
  have sync: "syncWith time state vp w = (vp, w)"
    using null by (simp add: syncWith_def)
  have fresh: "player (fst (ngOnInit (newVideoPlayer isMain rnd stamp) w)) = None"
    by (simp add: ngOnInit_def Let_def newVideoPlayer_def)
  show ?thesis
    using cleared fresh by (simp add: destroy change sync emit_def)
qed

theorem null_player_is_inert_witness:
  "player (fst (ngOnInit ex_follower ex_world)) = None
   \<and> service (snd (ngOnDestroy (fst (ngOnInit ex_follower ex_world)) ex_world)) = ex_service
   \<and> engineCalls (snd (ngOnDestroy (fst (ngOnInit ex_follower ex_world)) ex_world)) = []
   \<and> service (snd (onStateChange 0 (fst (ngOnInit ex_follower ex_world)) ex_world)) = ex_service
   \<and> engineCalls (snd (onStateChange 0 (fst (ngOnInit ex_follower ex_world)) ex_world)) = []
   \<and> syncWith 30 1 (fst (ngOnInit ex_follower ex_world)) ex_world
       = (fst (ngOnInit ex_follower ex_world), ex_world)"
proof -
  have null: "player (fst (ngOnInit ex_follower ex_world)) = None"
    by (simp add: ngOnInit_def Let_def ex_follower_def newVideoPlayer_def)
  show ?thesis
    using null_player_is_inert [OF null, of ex_world 0 30 1 False "''fffffff''" "''3000''"] null
    by (simp add: ex_world_def)
qed

text \<open>
  C10. \<open>ngOnDestroy\<close> of any component with a ready player handle, main or mini and
  whatever the authority token holds, makes one \<open>forceUpdateState\<close> with the player's
  current time and state: afterwards the store holds that time, that state code,
  \<open>isPlaying\<close> set to whether the code is 1 and \<open>lastUpdate\<close> set to the clock
  reading, exactly one value has been published, and the token is as before.
\<close>

theorem destroy_flushes_past_the_gate:
  "player vp = Some e \<Longrightarrow> isPlayerReady vp \<Longrightarrow>
   service (snd (ngOnDestroy vp w)) = forceUpdateState (telemetry e (clock w)) (clock w) (service w)
   \<and> getCurrentState (service (snd (ngOnDestroy vp w)))
       = \<lparr>currentTime = getCurrentTime e, playerState = getPlayerState e,
          isPlaying = (getPlayerState e = 1), lastUpdate = clock w\<rparr>
   \<and> published (service (snd (ngOnDestroy vp w)))
       = published (service w)
           @ [\<lparr>currentTime = getCurrentTime e, playerState = getPlayerState e,
               isPlaying = (getPlayerState e = 1), lastUpdate = clock w\<rparr>]
   \<and> activePlayerId (service (snd (ngOnDestroy vp w))) = activePlayerId (service w)
   \<and> engineCalls (snd (ngOnDestroy vp w)) = engineCalls w"
proof -
  assume handle: "player vp = Some e" and ready: "isPlayerReady vp"
  have cleared: "service (clearSaveStateInterval vp w) = service w
      \<and> clock (clearSaveStateInterval vp w) = clock w
      \<and> engineCalls (clearSaveStateInterval vp w) = engineCalls w"
    by (simp add: clearSaveStateInterval_def clearInterval_def split: option.splits)
  have flush: "service (snd (ngOnDestroy vp w))
      = forceUpdateState (telemetry e (clock w)) (clock w) (service w)"
    using handle ready cleared by (simp add: ngOnDestroy_def Let_def)
  have calls: "engineCalls (snd (ngOnDestroy vp w)) = engineCalls w"
    using handle ready cleared by (simp add: ngOnDestroy_def Let_def)
  have merged: "spread (getCurrentState (service w)) (telemetry e (clock w)) (clock w)
      = \<lparr>currentTime = getCurrentTime e, playerState = getPlayerState e,
         isPlaying = (getPlayerState e = 1), lastUpdate = clock w\<rparr>"
    by (simp add: spread_def telemetry_def)
  show ?thesis
    using merged calls
    by (simp add: flush getCurrentState_forceUpdateState published_forceUpdateState)
qed

theorem destroy_flushes_past_the_gate_witness:
  "\<not> isMainPlayer (fst (onPlayerReady ex_engine ex_follower ex_world))
   \<and> activePlayerId (service ex_world) = Some ''player_a_1''
   \<and> playerId (fst (onPlayerReady ex_engine ex_follower ex_world)) = ''player_fffffff_3000''
   \<and> getCurrentState (service ex_world) = ex_state
   \<and> getCurrentState
        (service (snd (ngOnDestroy (fst (onPlayerReady ex_engine ex_follower ex_world)) ex_world)))
       = \<lparr>currentTime = 7, playerState = 2, isPlaying = False, lastUpdate = 2000\<rparr>"
proof -
  have comp: "fst (onPlayerReady ex_engine ex_follower ex_world)
      = ex_follower\<lparr>player := Some ex_engine, isPlayerReady := True\<rparr>"
    by (simp add: onPlayerReady_def Let_def ex_follower_def newVideoPlayer_def)
  have handle: "player (fst (onPlayerReady ex_engine ex_follower ex_world)) = Some ex_engine"
    by (simp add: comp)
  have ready: "isPlayerReady (fst (onPlayerReady ex_engine ex_follower ex_world))"
    by (simp add: comp)
  show ?thesis
    using destroy_flushes_past_the_gate [OF handle ready, of ex_world]
    by (simp add: comp)
      (simp add: ex_follower_def newVideoPlayer_def ex_world_def ex_service_def
        getCurrentState_def ex_engine_def forceUpdateState_def subject_next_def spread_def
        telemetry_def)
qed

section \<open>The authority slot over whole histories\<close>

lemma slot_clearSaveStateInterval [simp]:
  "service (clearSaveStateInterval vp w) = service w"
  by (simp add: clearSaveStateInterval_def clearInterval_def split: option.splits)

lemma slot_ngOnInit:
  "activePlayerId (service (snd (ngOnInit vp w)))
     = (if isMainPlayer vp then Some (playerId vp) else activePlayerId (service w))"
  by (simp add: ngOnInit_def Let_def setActivePlayer_def)

lemma slot_ngOnDestroy:
  "activePlayerId (service (snd (ngOnDestroy vp w))) = activePlayerId (service w)"
  by (simp add: ngOnDestroy_def Let_def split: option.splits)

lemma slot_onPlayerReady:
  "activePlayerId (service (snd (onPlayerReady target vp w)))
     = (if isMainPlayer vp then Some (playerId vp) else activePlayerId (service w))"
  by (simp add: onPlayerReady_def Let_def split_def setInterval_def setTimer_def
      setTimeout_def emit_def setActivePlayer_def)

lemma slot_onStateChange:
  "activePlayerId (service (snd (onStateChange dat vp w))) = activePlayerId (service w)"
  by (simp add: onStateChange_def Let_def setTimeout_def setTimer_def emit_def pushState_def
      split: option.splits)

lemma slot_syncWith:
  "activePlayerId (service (snd (syncWith time state vp w))) = activePlayerId (service w)"
  by (simp add: syncWith_def Let_def engineCall_def split: option.splits)

lemma slot_run_callback:
  "activePlayerId (service (case run_callback cb vp w of Inl err \<Rightarrow> w | Inr r \<Rightarrow> snd r))
     = activePlayerId (service w)"
  by (cases cb)
    (simp_all add: Let_def setTimeout_def setTimer_def engineCall_def pushState_def
      split: option.splits)

text \<open>
  One event leaves the slot as it is or puts one of the event's own ids into it.
\<close>

lemma slot_step:
  "activePlayerId (service (step ev w)) = activePlayerId (service w)
   \<or> (\<exists>i \<in> set (slot_ids ev). activePlayerId (service (step ev w)) = Some i)"
proof (cases ev)
  case (EvSetActivePlayer pid)
  then show ?thesis by (simp add: setActivePlayer_def)
next
  case (EvNgOnInit vp)
  then show ?thesis by (simp add: slot_ngOnInit)
next
  case (EvOnPlayerReady target vp)
  then show ?thesis by (simp add: slot_onPlayerReady)
next
  case (EvCallback cb vp)
  then show ?thesis by (simp add: slot_run_callback)
qed (simp_all add: saveCurrentTime_def savePlayerState_def slot_ngOnDestroy
    slot_onStateChange slot_syncWith)

lemma truthy_step:
  "truthy (activePlayerId (service w)) \<Longrightarrow> [] \<notin> set (slot_ids ev) \<Longrightarrow>
   truthy (activePlayerId (service (step ev w)))"
  using slot_step [of ev w] by auto

lemma truthy_run:
  "truthy (activePlayerId (service w)) \<Longrightarrow> \<forall>ev \<in> set evs. [] \<notin> set (slot_ids ev) \<Longrightarrow>
   truthy (activePlayerId (service (run evs w)))"
proof (induction evs arbitrary: w)
  case Nil
  then show ?case by simp
next
  case (Cons ev evs)
  have "truthy (activePlayerId (service (step ev w)))"
    using Cons.prems by (intro truthy_step) simp_all
  then show ?case
    using Cons.prems by (simp add: Cons.IH)
qed

text \<open>
  C9. Take any history of store calls, component lifecycle calls, timer closures and
  clock changes in which every id an event can write into the slot is non-empty, as the
  id of every component is (\<open>playerId_newVideoPlayer\<close>; no method changes
  \<open>playerId\<close>). If the slot is non-empty before the history it is non-empty after it,
  and then \<open>updateState\<close> leaves the service untouched for every id other than the one
  in the slot. In particular this holds from the moment \<open>ngOnInit\<close> of a newly
  constructed main component has run: the branch of \<open>updateState\<close> for an empty token
  is not taken again.
\<close>

theorem authority_slot_stays_taken:
  "\<forall>ev \<in> set evs. [] \<notin> set (slot_ids ev) \<Longrightarrow>
   (truthy (activePlayerId (service w)) \<longrightarrow>
      truthy (activePlayerId (service (run evs w)))
      \<and> (activePlayerId (service (run evs w)) \<noteq> Some pid \<longrightarrow>
           updateState state pid now (service (run evs w)) = service (run evs w)))
   \<and> truthy (activePlayerId (service (snd (ngOnInit (newVideoPlayer True rnd stamp) w0))))
   \<and> truthy (activePlayerId
        (service (run evs (snd (ngOnInit (newVideoPlayer True rnd stamp) w0)))))
   \<and> (activePlayerId (service (run evs (snd (ngOnInit (newVideoPlayer True rnd stamp) w0))))
         \<noteq> Some pid \<longrightarrow>
       updateState state pid now
           (service (run evs (snd (ngOnInit (newVideoPlayer True rnd stamp) w0))))
         = service (run evs (snd (ngOnInit (newVideoPlayer True rnd stamp) w0))))"
proof -
  assume ids: "\<forall>ev \<in> set evs. [] \<notin> set (slot_ids ev)"
  let ?w1 = "snd (ngOnInit (newVideoPlayer True rnd stamp) w0)"
  have taken: "truthy (activePlayerId (service ?w1))"
    by (simp add: slot_ngOnInit) (simp add: newVideoPlayer_def)
  have kept: "truthy (activePlayerId (service (run evs u)))"
    if "truthy (activePlayerId (service u))" for u
    using that ids by (rule truthy_run)
  have gate: "updateState state pid now (service (run evs u)) = service (run evs u)"
    if "truthy (activePlayerId (service u))" "activePlayerId (service (run evs u)) \<noteq> Some pid" for u
    using kept [OF that(1)] that(2) by (rule updateState_rejected)
  show ?thesis
    using taken kept gate by blast
qed

theorem authority_slot_stays_taken_witness:
  "activePlayerId (service (newWorld defaultVideoConfig 1000)) = None
   \<and> activePlayerId
        (service (run ex_history
           (snd (ngOnInit (newVideoPlayer True ''aaaaaaa'' ''1000'')
                   (newWorld defaultVideoConfig 1000)))))
       = Some ''player_bbbbbbb_1500''
   \<and> updateState ex_partial ''player_aaaaaaa_1000'' 6000
        (service (run ex_history
           (snd (ngOnInit (newVideoPlayer True ''aaaaaaa'' ''1000'')
                   (newWorld defaultVideoConfig 1000)))))
       = service (run ex_history
           (snd (ngOnInit (newVideoPlayer True ''aaaaaaa'' ''1000'')
                   (newWorld defaultVideoConfig 1000))))"
proof -
  have ids: "\<forall>ev \<in> set ex_history. [] \<notin> set (slot_ids ev)"
    by (simp add: ex_history_def ex_A_def ex_B_def ex_follower_def newVideoPlayer_def)
  have fresh: "activePlayerId (service (newWorld defaultVideoConfig 1000)) = None"
    by (simp add: newWorld_def newVideoStateService_def)
  have last: "activePlayerId
        (service (run ex_history
           (snd (ngOnInit (newVideoPlayer True ''aaaaaaa'' ''1000'')
                   (newWorld defaultVideoConfig 1000)))))
       = Some ''player_bbbbbbb_1500''"
    by (simp add: ex_history_def slot_ngOnDestroy savePlayerState_def setActivePlayer_def)
  show ?thesis
    using authority_slot_stays_taken [OF ids, of
        "snd (ngOnInit (newVideoPlayer True ''aaaaaaa'' ''1000'') (newWorld defaultVideoConfig 1000))"
        "''player_aaaaaaa_1000''" ex_partial 6000 "''aaaaaaa''" "''1000''"
        "newWorld defaultVideoConfig 1000"]
      fresh last
    by simp
qed

end
